theory Spec2Isabelle
  imports Main
begin

text \<open>
  A model of \<open>ADLX_3DSettings.cpp\<close>, the wrapper that exports eleven flat functions for
  Radeon Super Resolution, AMD Fluid Motion Frames and Anti-Lag over the vendor's ADLX
  component system. Every function of the source is a function from the state it runs in
  to its return value and the state it leaves; the vendor's answers are a parameter.
\<close>

section \<open>The vendor layer\<close>

text \<open>
  Modelled from the spec: the status type \<open>ADLX_RESULT\<close> and the macros
  \<open>ADLX_SUCCEEDED\<close> and \<open>ADLX_FAILED\<close> are declared in the vendor SDK headers
  included by \<open>ADLX_3DSettings.cpp\<close>; the headers are not among the sources. The spec
  speaks of the vendor's "success/failure status codes": a status is either a success or
  a failure, and \<open>ADLX_FAILED\<close> is the negation of \<open>ADLX_SUCCEEDED\<close>.
\<close>

datatype ADLX_RESULT = ADLX_OK | ADLX_FAIL

definition ADLX_SUCCEEDED :: "ADLX_RESULT \<Rightarrow> bool" where
  "ADLX_SUCCEEDED x = (x = ADLX_OK)"

definition ADLX_FAILED :: "ADLX_RESULT \<Rightarrow> bool" where
  "ADLX_FAILED x = (x \<noteq> ADLX_OK)"

text \<open>
  The feature interfaces of the vendor's 3D-settings service, under the names of their
  getters: \<open>GetRadeonSuperResolution\<close>, \<open>GetFrameRateTargetControl\<close>, \<open>GetAntiLag\<close>
  are the three getters the source calls. \<open>AMDFluidMotionFrames\<close> is the vendor's
  frame-interpolation feature, with an enabled flag of its own.
\<close>

datatype feature =
  RadeonSuperResolution | FrameRateTargetControl | AntiLag | AMDFluidMotionFrames

text \<open>The four kinds of reference-counted handle a call can hold.\<close>

datatype handle = GPUList | GPU | Services3D | FeatureInterface feature

record IADLXGPU =
  gpu_name :: string
  gpu_unique_id :: int
  gpu_total_vram :: nat

text \<open>
  Modelled from the spec: the vendor component system is an opaque dependency, consumed
  through its entry points, its release convention and its status codes; the spec tests
  the module against a fake vendor layer that can be made to fail each step and that
  counts acquisitions and releases. A \<open>vendor\<close> fixes the answer of every entry point:
  a status and, for a call with an out-pointer, whether that pointer comes back non-null
  (\<open>True\<close>, or \<open>Some\<close> adapter). A failed status together with a non-null handle is a
  possible answer, and so is a query that fails after it has written its out-parameter:
  \<open>IsEnabled_leaves\<close> and \<open>GetSharpness_leaves\<close> give what a failing query stores in
  the caller's variable (\<open>None\<close>: nothing).
\<close>

record vendor =
  Initialize_res :: ADLX_RESULT
  GetSystemServices_ptr :: bool
  GetGPUs_out :: "ADLX_RESULT \<times> bool"
  At_out :: "nat \<Rightarrow> ADLX_RESULT \<times> IADLXGPU option"
  Get3DSettingsServices_out :: "ADLX_RESULT \<times> bool"
  GetInterface_out :: "feature \<Rightarrow> ADLX_RESULT \<times> bool"
  IsEnabled_res :: "feature \<Rightarrow> ADLX_RESULT"
  IsEnabled_leaves :: "feature \<Rightarrow> bool option"
  SetEnabled_res :: "feature \<Rightarrow> bool \<Rightarrow> ADLX_RESULT"
  GetSharpness_res :: ADLX_RESULT
  GetSharpness_leaves :: "int option"
  SetSharpness_res :: "int \<Rightarrow> ADLX_RESULT"

text \<open>Every call into the vendor layer is recorded; \<open>Acquired h\<close> marks a call that
  handed out a non-null handle of kind \<open>h\<close>.\<close>

datatype event =
  InitializeCall
  | GetSystemServicesCall
  | GetGPUsCall
  | AtCall nat
  | Get3DSettingsServicesCall
  | GetInterfaceCall feature
  | IsEnabledCall feature
  | SetEnabledCall feature bool
  | GetSharpnessCall
  | SetSharpnessCall int
  | ReleaseCall handle
  | Acquired handle

text \<open>
  The state a call runs in: the module's global \<open>g_bInitialized\<close>, the vendor-side
  feature state (an enabled flag per feature, the RSR sharpness) and the record of
  vendor calls made so far.
\<close>

record world =
  g_bInitialized :: bool
  vendor_enabled :: "feature \<Rightarrow> bool"
  vendor_sharpness :: int
  trace :: "event list"

definition emit :: "event \<Rightarrow> world \<Rightarrow> world" where
  "emit e s = s\<lparr>trace := trace s @ [e]\<rparr>"

definition hand_out :: "handle \<Rightarrow> bool \<Rightarrow> world \<Rightarrow> world" where
  "hand_out h nonnull s = (if nonnull then emit (Acquired h) s else s)"

text \<open>
  Modelled from the spec: the entry points of the fake vendor layer. A query that
  succeeds stores the vendor-side value in the caller's variable; one that fails stores
  what the vendor chooses, or nothing, and then the variable is as the caller set it. A
  write that succeeds stores the value on the vendor side and one that fails changes
  nothing.
\<close>

definition Initialize :: "vendor \<Rightarrow> world \<Rightarrow> ADLX_RESULT \<times> world" where
  "Initialize v s = (Initialize_res v, emit InitializeCall s)"

definition GetSystemServices :: "vendor \<Rightarrow> world \<Rightarrow> bool \<times> world" where
  "GetSystemServices v s = (GetSystemServices_ptr v, emit GetSystemServicesCall s)"

definition GetGPUs :: "vendor \<Rightarrow> world \<Rightarrow> (ADLX_RESULT \<times> bool) \<times> world" where
  "GetGPUs v s =
     (GetGPUs_out v, hand_out GPUList (snd (GetGPUs_out v)) (emit GetGPUsCall s))"

definition At :: "vendor \<Rightarrow> nat \<Rightarrow> world \<Rightarrow> (ADLX_RESULT \<times> IADLXGPU option) \<times> world" where
  "At v i s =
     (At_out v i, hand_out GPU (snd (At_out v i) \<noteq> None) (emit (AtCall i) s))"

definition Get3DSettingsServices :: "vendor \<Rightarrow> world \<Rightarrow> (ADLX_RESULT \<times> bool) \<times> world" where
  "Get3DSettingsServices v s =
     (Get3DSettingsServices_out v,
      hand_out Services3D (snd (Get3DSettingsServices_out v)) (emit Get3DSettingsServicesCall s))"

definition GetInterface :: "vendor \<Rightarrow> feature \<Rightarrow> world \<Rightarrow> (ADLX_RESULT \<times> bool) \<times> world" where
  "GetInterface v f s =
     (GetInterface_out v f,
      hand_out (FeatureInterface f) (snd (GetInterface_out v f)) (emit (GetInterfaceCall f) s))"

definition GetRadeonSuperResolution :: "vendor \<Rightarrow> world \<Rightarrow> (ADLX_RESULT \<times> bool) \<times> world" where
  "GetRadeonSuperResolution v s = GetInterface v RadeonSuperResolution s"

definition GetFrameRateTargetControl :: "vendor \<Rightarrow> world \<Rightarrow> (ADLX_RESULT \<times> bool) \<times> world" where
  "GetFrameRateTargetControl v s = GetInterface v FrameRateTargetControl s"

definition GetAntiLag :: "vendor \<Rightarrow> world \<Rightarrow> (ADLX_RESULT \<times> bool) \<times> world" where
  "GetAntiLag v s = GetInterface v AntiLag s"

definition IsEnabled :: "vendor \<Rightarrow> feature \<Rightarrow> bool \<Rightarrow> world \<Rightarrow> (ADLX_RESULT \<times> bool) \<times> world" where
  "IsEnabled v f enabled s =
     ((IsEnabled_res v f,
       if ADLX_SUCCEEDED (IsEnabled_res v f) then vendor_enabled s f
       else (case IsEnabled_leaves v f of None \<Rightarrow> enabled | Some b \<Rightarrow> b)),
      emit (IsEnabledCall f) s)"

definition SetEnabled :: "vendor \<Rightarrow> feature \<Rightarrow> bool \<Rightarrow> world \<Rightarrow> ADLX_RESULT \<times> world" where
  "SetEnabled v f isEnabled s =
     (SetEnabled_res v f isEnabled,
      if ADLX_SUCCEEDED (SetEnabled_res v f isEnabled)
      then (emit (SetEnabledCall f isEnabled) s)\<lparr>vendor_enabled := (vendor_enabled s)(f := isEnabled)\<rparr>
      else emit (SetEnabledCall f isEnabled) s)"

definition GetSharpness :: "vendor \<Rightarrow> int \<Rightarrow> world \<Rightarrow> (ADLX_RESULT \<times> int) \<times> world" where
  "GetSharpness v val s =
     ((GetSharpness_res v,
       if ADLX_SUCCEEDED (GetSharpness_res v) then vendor_sharpness s
       else (case GetSharpness_leaves v of None \<Rightarrow> val | Some n \<Rightarrow> n)),
      emit GetSharpnessCall s)"

definition SetSharpness :: "vendor \<Rightarrow> int \<Rightarrow> world \<Rightarrow> ADLX_RESULT \<times> world" where
  "SetSharpness v sharpness s =
     (SetSharpness_res v sharpness,
      if ADLX_SUCCEEDED (SetSharpness_res v sharpness)
      then (emit (SetSharpnessCall sharpness) s)\<lparr>vendor_sharpness := sharpness\<rparr>
      else emit (SetSharpnessCall sharpness) s)"

definition Release :: "handle \<Rightarrow> world \<Rightarrow> world" where
  "Release h s = emit (ReleaseCall h) s"

section \<open>The module\<close>

text \<open>\<open>InitializeADLX\<close>: the guard on \<open>g_bInitialized\<close>; the flag is set only when
  the vendor's initialization succeeds.\<close>

definition InitializeADLX :: "vendor \<Rightarrow> world \<Rightarrow> bool \<times> world" where
  "InitializeADLX v s =
     (if g_bInitialized s then (True, s)
      else case Initialize v s of (res, s1) \<Rightarrow>
        if ADLX_SUCCEEDED res then (True, s1\<lparr>g_bInitialized := True\<rparr>)
        else (False, s1))"

text \<open>\<open>Get3DGraphicsServices\<close> returns the 3D-settings pointer (\<open>True\<close>: non-null). The
  status of \<open>Get3DSettingsServices\<close> is assigned to \<open>res\<close> and not read again.\<close>

definition Get3DGraphicsServices :: "vendor \<Rightarrow> world \<Rightarrow> bool \<times> world" where
  "Get3DGraphicsServices v s =
     (case InitializeADLX v s of (ok, s1) \<Rightarrow>
        if \<not> ok then (False, s1)
        else case GetSystemServices v s1 of (sys, s2) \<Rightarrow>
          if \<not> sys then (False, s2)
          else case GetGPUs v s2 of ((res, gpus), s3) \<Rightarrow>
            if ADLX_FAILED res \<or> \<not> gpus then (False, s3)
            else case At v 0 s3 of ((res1, gpu), s4) \<Rightarrow>
              if ADLX_FAILED res1 \<or> gpu = None
              then (False, if gpus then Release GPUList s4 else s4)
              else case Get3DSettingsServices v s4 of ((res2, d3dSettingSrv), s5) \<Rightarrow>
                let s6 = (if gpus then Release GPUList s5 else s5);
                    s7 = (if gpu \<noteq> None then Release GPU s6 else s6)
                in (d3dSettingSrv, s7))"

subsection \<open>RSR\<close>

definition HasRSRSupport :: "vendor \<Rightarrow> world \<Rightarrow> bool \<times> world" where
  "HasRSRSupport v s =
     (case Get3DGraphicsServices v s of (d3dSettingSrv, s1) \<Rightarrow>
        if \<not> d3dSettingSrv then (False, s1)
        else case GetRadeonSuperResolution v s1 of ((res, rsr), s2) \<Rightarrow>
          let supported = (ADLX_SUCCEEDED res \<and> rsr);
              s3 = (if rsr then Release (FeatureInterface RadeonSuperResolution) s2 else s2);
              s4 = (if d3dSettingSrv then Release Services3D s3 else s3)
          in (supported, s4))"

definition GetRSRState :: "vendor \<Rightarrow> world \<Rightarrow> bool \<times> world" where
  "GetRSRState v s =
     (case Get3DGraphicsServices v s of (d3dSettingSrv, s1) \<Rightarrow>
        if \<not> d3dSettingSrv then (False, s1)
        else case GetRadeonSuperResolution v s1 of ((res, rsr), s2) \<Rightarrow>
          case (if ADLX_SUCCEEDED res \<and> rsr
                then (case IsEnabled v RadeonSuperResolution False s2 of
                        ((res1, enabled1), s') \<Rightarrow> (enabled1, s'))
                else (False, s2)) of (enabled, s3) \<Rightarrow>
            let s4 = (if rsr then Release (FeatureInterface RadeonSuperResolution) s3 else s3);
                s5 = (if d3dSettingSrv then Release Services3D s4 else s4)
            in (enabled, s5))"

definition SetRSR :: "vendor \<Rightarrow> bool \<Rightarrow> world \<Rightarrow> bool \<times> world" where
  "SetRSR v isEnabled s =
     (case Get3DGraphicsServices v s of (d3dSettingSrv, s1) \<Rightarrow>
        if \<not> d3dSettingSrv then (False, s1)
        else case GetRadeonSuperResolution v s1 of ((res, rsr), s2) \<Rightarrow>
          case (if ADLX_SUCCEEDED res \<and> rsr
                then (case SetEnabled v RadeonSuperResolution isEnabled s2 of
                        (res1, s') \<Rightarrow> (ADLX_SUCCEEDED res1, s'))
                else (False, s2)) of (success, s3) \<Rightarrow>
            let s4 = (if rsr then Release (FeatureInterface RadeonSuperResolution) s3 else s3);
                s5 = (if d3dSettingSrv then Release Services3D s4 else s4)
            in (success, s5))"

definition GetRSRSharpness :: "vendor \<Rightarrow> world \<Rightarrow> int \<times> world" where
  "GetRSRSharpness v s =
     (case Get3DGraphicsServices v s of (d3dSettingSrv, s1) \<Rightarrow>
        if \<not> d3dSettingSrv then (- 1, s1)
        else case GetRadeonSuperResolution v s1 of ((res, rsr), s2) \<Rightarrow>
          case (if ADLX_SUCCEEDED res \<and> rsr
                then (case GetSharpness v 0 s2 of
                        ((res1, val), s') \<Rightarrow> (if ADLX_SUCCEEDED res1 then val else - 1, s'))
                else (- 1, s2)) of (sharpness, s3) \<Rightarrow>
            let s4 = (if rsr then Release (FeatureInterface RadeonSuperResolution) s3 else s3);
                s5 = (if d3dSettingSrv then Release Services3D s4 else s4)
            in (sharpness, s5))"

definition SetRSRSharpness :: "vendor \<Rightarrow> int \<Rightarrow> world \<Rightarrow> bool \<times> world" where
  "SetRSRSharpness v sharpness s =
     (if sharpness < 0 \<or> sharpness > 100 then (False, s)
      else case Get3DGraphicsServices v s of (d3dSettingSrv, s1) \<Rightarrow>
        if \<not> d3dSettingSrv then (False, s1)
        else case GetRadeonSuperResolution v s1 of ((res, rsr), s2) \<Rightarrow>
          case (if ADLX_SUCCEEDED res \<and> rsr
                then (case SetSharpness v sharpness s2 of
                        (res1, s') \<Rightarrow> (ADLX_SUCCEEDED res1, s'))
                else (False, s2)) of (success, s3) \<Rightarrow>
            let s4 = (if rsr then Release (FeatureInterface RadeonSuperResolution) s3 else s3);
                s5 = (if d3dSettingSrv then Release Services3D s4 else s4)
            in (success, s5))"

subsection \<open>AFMF\<close>

text \<open>The three functions named for AFMF fetch the interface through
  \<open>GetFrameRateTargetControl\<close>, as the source does.\<close>

definition HasAFMFSupport :: "vendor \<Rightarrow> world \<Rightarrow> bool \<times> world" where
  "HasAFMFSupport v s =
     (case Get3DGraphicsServices v s of (d3dSettingSrv, s1) \<Rightarrow>
        if \<not> d3dSettingSrv then (False, s1)
        else case GetFrameRateTargetControl v s1 of ((res, afmf), s2) \<Rightarrow>
          let supported = (ADLX_SUCCEEDED res \<and> afmf);
              s3 = (if afmf then Release (FeatureInterface FrameRateTargetControl) s2 else s2);
              s4 = (if d3dSettingSrv then Release Services3D s3 else s3)
          in (supported, s4))"

definition GetAFMFState :: "vendor \<Rightarrow> world \<Rightarrow> bool \<times> world" where
  "GetAFMFState v s =
     (case Get3DGraphicsServices v s of (d3dSettingSrv, s1) \<Rightarrow>
        if \<not> d3dSettingSrv then (False, s1)
        else case GetFrameRateTargetControl v s1 of ((res, afmf), s2) \<Rightarrow>
          case (if ADLX_SUCCEEDED res \<and> afmf
                then (case IsEnabled v FrameRateTargetControl False s2 of
                        ((res1, enabled1), s') \<Rightarrow> (enabled1, s'))
                else (False, s2)) of (enabled, s3) \<Rightarrow>
            let s4 = (if afmf then Release (FeatureInterface FrameRateTargetControl) s3 else s3);
                s5 = (if d3dSettingSrv then Release Services3D s4 else s4)
            in (enabled, s5))"

definition SetAFMFState :: "vendor \<Rightarrow> bool \<Rightarrow> world \<Rightarrow> bool \<times> world" where
  "SetAFMFState v isEnabled s =
     (case Get3DGraphicsServices v s of (d3dSettingSrv, s1) \<Rightarrow>
        if \<not> d3dSettingSrv then (False, s1)
        else case GetFrameRateTargetControl v s1 of ((res, afmf), s2) \<Rightarrow>
          case (if ADLX_SUCCEEDED res \<and> afmf
                then (case SetEnabled v FrameRateTargetControl isEnabled s2 of
                        (res1, s') \<Rightarrow> (ADLX_SUCCEEDED res1, s'))
                else (False, s2)) of (success, s3) \<Rightarrow>
            let s4 = (if afmf then Release (FeatureInterface FrameRateTargetControl) s3 else s3);
                s5 = (if d3dSettingSrv then Release Services3D s4 else s4)
            in (success, s5))"

subsection \<open>Anti-Lag\<close>

definition HasAntiLagSupport :: "vendor \<Rightarrow> world \<Rightarrow> bool \<times> world" where
  "HasAntiLagSupport v s =
     (case Get3DGraphicsServices v s of (d3dSettingSrv, s1) \<Rightarrow>
        if \<not> d3dSettingSrv then (False, s1)
        else case GetAntiLag v s1 of ((res, antiLag), s2) \<Rightarrow>
          let supported = (ADLX_SUCCEEDED res \<and> antiLag);
              s3 = (if antiLag then Release (FeatureInterface AntiLag) s2 else s2);
              s4 = (if d3dSettingSrv then Release Services3D s3 else s3)
          in (supported, s4))"

definition GetAntiLagState :: "vendor \<Rightarrow> world \<Rightarrow> bool \<times> world" where
  "GetAntiLagState v s =
     (case Get3DGraphicsServices v s of (d3dSettingSrv, s1) \<Rightarrow>
        if \<not> d3dSettingSrv then (False, s1)
        else case GetAntiLag v s1 of ((res, antiLag), s2) \<Rightarrow>
          case (if ADLX_SUCCEEDED res \<and> antiLag
                then (case IsEnabled v AntiLag False s2 of
                        ((res1, enabled1), s') \<Rightarrow> (enabled1, s'))
                else (False, s2)) of (enabled, s3) \<Rightarrow>
            let s4 = (if antiLag then Release (FeatureInterface AntiLag) s3 else s3);
                s5 = (if d3dSettingSrv then Release Services3D s4 else s4)
            in (enabled, s5))"

definition SetAntiLagState :: "vendor \<Rightarrow> bool \<Rightarrow> world \<Rightarrow> bool \<times> world" where
  "SetAntiLagState v isEnabled s =
     (case Get3DGraphicsServices v s of (d3dSettingSrv, s1) \<Rightarrow>
        if \<not> d3dSettingSrv then (False, s1)
        else case GetAntiLag v s1 of ((res, antiLag), s2) \<Rightarrow>
          case (if ADLX_SUCCEEDED res \<and> antiLag
                then (case SetEnabled v AntiLag isEnabled s2 of
                        (res1, s') \<Rightarrow> (ADLX_SUCCEEDED res1, s'))
                else (False, s2)) of (success, s3) \<Rightarrow>
            let s4 = (if antiLag then Release (FeatureInterface AntiLag) s3 else s3);
                s5 = (if d3dSettingSrv then Release Services3D s4 else s4)
            in (success, s5))"

subsection \<open>The exported surface\<close>

datatype operation =
  Op_HasRSRSupport | Op_GetRSRState | Op_SetRSR bool | Op_GetRSRSharpness
  | Op_SetRSRSharpness int
  | Op_HasAFMFSupport | Op_GetAFMFState | Op_SetAFMFState bool
  | Op_HasAntiLagSupport | Op_GetAntiLagState | Op_SetAntiLagState bool

datatype result = RBool bool | RInt int

definition lift_bool :: "bool \<times> world \<Rightarrow> result \<times> world" where
  "lift_bool r = (RBool (fst r), snd r)"

definition lift_int :: "int \<times> world \<Rightarrow> result \<times> world" where
  "lift_int r = (RInt (fst r), snd r)"

fun call :: "vendor \<Rightarrow> operation \<Rightarrow> world \<Rightarrow> result \<times> world" where
  "call v Op_HasRSRSupport s = lift_bool (HasRSRSupport v s)"
| "call v Op_GetRSRState s = lift_bool (GetRSRState v s)"
| "call v (Op_SetRSR b) s = lift_bool (SetRSR v b s)"
| "call v Op_GetRSRSharpness s = lift_int (GetRSRSharpness v s)"
| "call v (Op_SetRSRSharpness n) s = lift_bool (SetRSRSharpness v n s)"
| "call v Op_HasAFMFSupport s = lift_bool (HasAFMFSupport v s)"
| "call v Op_GetAFMFState s = lift_bool (GetAFMFState v s)"
| "call v (Op_SetAFMFState b) s = lift_bool (SetAFMFState v b s)"
| "call v Op_HasAntiLagSupport s = lift_bool (HasAntiLagSupport v s)"
| "call v Op_GetAntiLagState s = lift_bool (GetAntiLagState v s)"
| "call v (Op_SetAntiLagState b) s = lift_bool (SetAntiLagState v b s)"

text \<open>A sequence of calls, one after the other, in one process.\<close>

fun run :: "vendor \<Rightarrow> operation list \<Rightarrow> world \<Rightarrow> result list \<times> world" where
  "run v [] s = ([], s)"
| "run v (x # xs) s =
     (case call v x s of (r, s1) \<Rightarrow>
        case run v xs s1 of (rs, s2) \<Rightarrow> (r # rs, s2))"


section \<open>Observations on a call\<close>

text \<open>The conditions \<open>Get3DGraphicsServices\<close> tests on its way to the 3D-settings
  pointer. The root is available when the flag is already set or the vendor's
  initialization succeeds; of \<open>Get3DSettingsServices\<close> only the pointer counts.\<close>

definition root_available :: "vendor \<Rightarrow> world \<Rightarrow> bool" where
  "root_available v s = (g_bInitialized s \<or> ADLX_SUCCEEDED (Initialize_res v))"

definition chain_resolves :: "vendor \<Rightarrow> world \<Rightarrow> bool" where
  "chain_resolves v s =
     (root_available v s \<and> GetSystemServices_ptr v
      \<and> ADLX_SUCCEEDED (fst (GetGPUs_out v)) \<and> snd (GetGPUs_out v)
      \<and> ADLX_SUCCEEDED (fst (At_out v 0)) \<and> snd (At_out v 0) \<noteq> None
      \<and> snd (Get3DSettingsServices_out v))"

definition feature_obtainable :: "vendor \<Rightarrow> feature \<Rightarrow> bool" where
  "feature_obtainable v f =
     (ADLX_SUCCEEDED (fst (GetInterface_out v f)) \<and> snd (GetInterface_out v f))"

text \<open>The vendor reports no adapters: the list cannot be had, or its first entry
  cannot.\<close>

definition no_adapters :: "vendor \<Rightarrow> bool" where
  "no_adapters v =
     (ADLX_FAILED (fst (GetGPUs_out v)) \<or> \<not> snd (GetGPUs_out v)
      \<or> ADLX_FAILED (fst (At_out v 0)) \<or> snd (At_out v 0) = None)"

text \<open>Counters read off the record of vendor calls.\<close>

definition acquired :: "handle \<Rightarrow> world \<Rightarrow> nat" where
  "acquired h s = count_list (trace s) (Acquired h)"

definition released :: "handle \<Rightarrow> world \<Rightarrow> nat" where
  "released h s = count_list (trace s) (ReleaseCall h)"

definition outstanding :: "handle \<Rightarrow> world \<Rightarrow> int" where
  "outstanding h s = int (acquired h s) - int (released h s)"

definition init_calls :: "world \<Rightarrow> nat" where
  "init_calls s = count_list (trace s) InitializeCall"

fun is_GetInterfaceCall :: "event \<Rightarrow> bool" where
  "is_GetInterfaceCall (GetInterfaceCall f) = True"
| "is_GetInterfaceCall e = False"

definition feature_lookups :: "world \<Rightarrow> nat" where
  "feature_lookups s = length (filter is_GetInterfaceCall (trace s))"

text \<open>A vendor that never hands out a GPU list or an adapter together with a failed
  status.\<close>

definition leak_free :: "vendor \<Rightarrow> bool" where
  "leak_free v =
     ((ADLX_FAILED (fst (GetGPUs_out v)) \<longrightarrow> \<not> snd (GetGPUs_out v))
      \<and> (ADLX_FAILED (fst (At_out v 0)) \<longrightarrow> snd (At_out v 0) = None))"

text \<open>The world \<open>Get3DGraphicsServices\<close> leaves behind.\<close>

definition resolved_world :: "vendor \<Rightarrow> world \<Rightarrow> world" where
  "resolved_world v s = snd (Get3DGraphicsServices v s)"

text \<open>The failure value of each operation, and the two families of operations.\<close>

fun failure_sentinel :: "operation \<Rightarrow> result" where
  "failure_sentinel Op_GetRSRSharpness = RInt (- 1)"
| "failure_sentinel x = RBool False"

fun is_set :: "operation \<Rightarrow> bool" where
  "is_set (Op_SetRSR b) = True"
| "is_set (Op_SetRSRSharpness n) = True"
| "is_set (Op_SetAFMFState b) = True"
| "is_set (Op_SetAntiLagState b) = True"
| "is_set x = False"

fun is_query :: "operation \<Rightarrow> bool" where
  "is_query Op_HasRSRSupport = True"
| "is_query Op_GetRSRState = True"
| "is_query Op_GetRSRSharpness = True"
| "is_query Op_HasAFMFSupport = True"
| "is_query Op_GetAFMFState = True"
| "is_query Op_HasAntiLagSupport = True"
| "is_query Op_GetAntiLagState = True"
| "is_query x = False"

section \<open>Concrete vendors and worlds\<close>

definition example_gpu :: IADLXGPU where
  "example_gpu = \<lparr>gpu_name = ''Radeon RX 7900'', gpu_unique_id = 1, gpu_total_vram = 24576\<rparr>"

definition other_gpu :: IADLXGPU where
  "other_gpu = \<lparr>gpu_name = ''Radeon 780M'', gpu_unique_id = 2, gpu_total_vram = 512\<rparr>"

text \<open>A vendor on which every step succeeds, with one adapter.\<close>

definition healthy_vendor :: vendor where
  "healthy_vendor =
     \<lparr>Initialize_res = ADLX_OK,
      GetSystemServices_ptr = True,
      GetGPUs_out = (ADLX_OK, True),
      At_out = (\<lambda>i. if i = 0 then (ADLX_OK, Some example_gpu) else (ADLX_FAIL, None)),
      Get3DSettingsServices_out = (ADLX_OK, True),
      GetInterface_out = (\<lambda>f. (ADLX_OK, True)),
      IsEnabled_res = (\<lambda>f. ADLX_OK),
      IsEnabled_leaves = (\<lambda>f. None),
      SetEnabled_res = (\<lambda>f b. ADLX_OK),
      GetSharpness_res = ADLX_OK,
      GetSharpness_leaves = None,
      SetSharpness_res = (\<lambda>n. ADLX_OK)\<rparr>"

text \<open>The world when the process starts: nothing initialized, no vendor call made,
  every feature off, sharpness 80.\<close>

definition process_start :: world where
  "process_start =
     \<lparr>g_bInitialized = False, vendor_enabled = (\<lambda>f. False), vendor_sharpness = 80, trace = []\<rparr>"

definition initialized_start :: world where
  "initialized_start = process_start\<lparr>g_bInitialized := True\<rparr>"

text \<open>Frame Rate Target Control on, AMD Fluid Motion Frames off.\<close>

definition frtc_enabled_start :: world where
  "frtc_enabled_start = process_start\<lparr>vendor_enabled := (\<lambda>f. f = FrameRateTargetControl)\<rparr>"

text \<open>A driver without the AMD Fluid Motion Frames interface.\<close>

definition afmf_absent_vendor :: vendor where
  "afmf_absent_vendor =
     healthy_vendor\<lparr>GetInterface_out :=
       (\<lambda>f. if f = AMDFluidMotionFrames then (ADLX_FAIL, False) else (ADLX_OK, True))\<rparr>"

text \<open>\<open>At\<close> and \<open>GetGPUs\<close> answering a failed status with a non-null handle.\<close>

definition failed_adapter_vendor :: vendor where
  "failed_adapter_vendor = healthy_vendor\<lparr>At_out := (\<lambda>i. (ADLX_FAIL, Some example_gpu))\<rparr>"

definition failed_list_vendor :: vendor where
  "failed_list_vendor = healthy_vendor\<lparr>GetGPUs_out := (ADLX_FAIL, True)\<rparr>"

definition no_root_vendor :: vendor where
  "no_root_vendor = healthy_vendor\<lparr>Initialize_res := ADLX_FAIL\<rparr>"

definition oversharp_start :: world where
  "oversharp_start = process_start\<lparr>vendor_sharpness := 150\<rparr>"

definition empty_list_vendor :: vendor where
  "empty_list_vendor = healthy_vendor\<lparr>At_out := (\<lambda>i. (ADLX_FAIL, None))\<rparr>"

definition write_fails_vendor :: vendor where
  "write_fails_vendor = healthy_vendor\<lparr>SetEnabled_res := (\<lambda>f b. ADLX_FAIL)\<rparr>"

text \<open>Queries that write their out-parameter and then report failure.\<close>

definition writes_then_fails_vendor :: vendor where
  "writes_then_fails_vendor =
     healthy_vendor\<lparr>IsEnabled_res := (\<lambda>f. ADLX_FAIL), IsEnabled_leaves := (\<lambda>f. Some True),
       GetSharpness_res := ADLX_FAIL, GetSharpness_leaves := Some 55\<rparr>"

definition other_adapter_vendor :: vendor where
  "other_adapter_vendor = healthy_vendor\<lparr>At_out := (\<lambda>i. (ADLX_OK, Some other_gpu))\<rparr>"

section \<open>Facts about the vendor entry points\<close>

lemmas op_defs = HasRSRSupport_def GetRSRState_def SetRSR_def GetRSRSharpness_def
  SetRSRSharpness_def HasAFMFSupport_def GetAFMFState_def SetAFMFState_def
  HasAntiLagSupport_def GetAntiLagState_def SetAntiLagState_def lift_bool_def lift_int_def

lemmas G3D_unfold = Get3DGraphicsServices_def InitializeADLX_def Initialize_def
  GetSystemServices_def GetGPUs_def At_def Get3DSettingsServices_def Let_def case_prod_beta

lemmas feature_unfold = GetInterface_def GetRadeonSuperResolution_def
  GetFrameRateTargetControl_def GetAntiLag_def IsEnabled_def SetEnabled_def
  GetSharpness_def SetSharpness_def Let_def case_prod_beta

lemmas eval_defs = op_defs G3D_unfold feature_unfold emit_def hand_out_def Release_def
  healthy_vendor_def process_start_def example_gpu_def
  ADLX_SUCCEEDED_def ADLX_FAILED_def acquired_def released_def init_calls_def
  feature_lookups_def chain_resolves_def root_available_def feature_obtainable_def

lemma emit_fields [simp]:
  "g_bInitialized (emit e s) = g_bInitialized s"
  "vendor_enabled (emit e s) = vendor_enabled s"
  "vendor_sharpness (emit e s) = vendor_sharpness s"
  "init_calls (emit e s) = init_calls s + (if e = InitializeCall then 1 else 0)"
  "feature_lookups (emit e s) = feature_lookups s + (if is_GetInterfaceCall e then 1 else 0)"
  by (simp_all add: emit_def init_calls_def feature_lookups_def)

lemma hand_out_fields [simp]:
  "g_bInitialized (hand_out h b s) = g_bInitialized s"
  "vendor_enabled (hand_out h b s) = vendor_enabled s"
  "vendor_sharpness (hand_out h b s) = vendor_sharpness s"
  "init_calls (hand_out h b s) = init_calls s"
  "feature_lookups (hand_out h b s) = feature_lookups s"
  by (simp_all add: hand_out_def)

lemma Release_fields [simp]:
  "g_bInitialized (Release h s) = g_bInitialized s"
  "vendor_enabled (Release h s) = vendor_enabled s"
  "vendor_sharpness (Release h s) = vendor_sharpness s"
  "init_calls (Release h s) = init_calls s"
  "feature_lookups (Release h s) = feature_lookups s"
  by (simp_all add: Release_def)

lemma update_fields [simp]:
  "init_calls (s\<lparr>g_bInitialized := b\<rparr>) = init_calls s"
  "feature_lookups (s\<lparr>g_bInitialized := b\<rparr>) = feature_lookups s"
  "init_calls (s\<lparr>vendor_enabled := en\<rparr>) = init_calls s"
  "feature_lookups (s\<lparr>vendor_enabled := en\<rparr>) = feature_lookups s"
  "init_calls (s\<lparr>vendor_sharpness := n\<rparr>) = init_calls s"
  "feature_lookups (s\<lparr>vendor_sharpness := n\<rparr>) = feature_lookups s"
  by (simp_all add: init_calls_def feature_lookups_def)

lemma outstanding_fields:
  "outstanding h (emit e s) =
     outstanding h s + (if e = Acquired h then 1 else 0) - (if e = ReleaseCall h then 1 else 0)"
  "outstanding h (hand_out h' b s) = outstanding h s + (if b \<and> h' = h then 1 else 0)"
  "outstanding h (Release h' s) = outstanding h s - (if h' = h then 1 else 0)"
  "outstanding h (s\<lparr>g_bInitialized := x\<rparr>) = outstanding h s"
  "outstanding h (s\<lparr>vendor_enabled := en\<rparr>) = outstanding h s"
  "outstanding h (s\<lparr>vendor_sharpness := n\<rparr>) = outstanding h s"
  by (simp_all add: outstanding_def acquired_def released_def emit_def hand_out_def Release_def)

section \<open>Resolving the 3D-settings service\<close>

lemma Get3DGraphicsServices_pointer: "fst (Get3DGraphicsServices v s) = chain_resolves v s"
  by (auto simp: G3D_unfold chain_resolves_def root_available_def ADLX_SUCCEEDED_def
      ADLX_FAILED_def)

lemma G3D_eq: "Get3DGraphicsServices v s = (chain_resolves v s, resolved_world v s)"
  by (simp add: resolved_world_def Get3DGraphicsServices_pointer [symmetric])

lemma resolved_world_fields [simp]:
  "vendor_enabled (resolved_world v s) = vendor_enabled s"
  "vendor_sharpness (resolved_world v s) = vendor_sharpness s"
  "g_bInitialized (resolved_world v s) = root_available v s"
  "feature_lookups (resolved_world v s) = feature_lookups s"
  "init_calls (resolved_world v s) = init_calls s + (if g_bInitialized s then 0 else 1)"
  by (simp_all add: resolved_world_def G3D_unfold root_available_def)

lemma resolved_world_outstanding:
  "leak_free v \<Longrightarrow>
   outstanding h (resolved_world v s) =
     outstanding h s + (if chain_resolves v s \<and> h = Services3D then 1 else 0)"
  by (auto simp add: outstanding_fields resolved_world_def G3D_unfold leak_free_def
      chain_resolves_def root_available_def ADLX_SUCCEEDED_def ADLX_FAILED_def)

lemma no_adapters_chain: "no_adapters v \<Longrightarrow> \<not> chain_resolves v s"
  by (auto simp: no_adapters_def chain_resolves_def ADLX_FAILED_def ADLX_SUCCEEDED_def)

lemma chain_resolves_flag:
  "g_bInitialized s' = root_available v s \<Longrightarrow> chain_resolves v s' = chain_resolves v s"
  by (auto simp: chain_resolves_def root_available_def)

lemma G3D_adapter:
  "At_out v 0 = (r, Some g) \<Longrightarrow> a 0 = (r, Some g') \<Longrightarrow>
   Get3DGraphicsServices (v\<lparr>At_out := a\<rparr>) s = Get3DGraphicsServices v s"
  by (simp add: G3D_unfold)

section \<open>What each operation returns and leaves behind\<close>

lemma query_results:
  "fst (HasRSRSupport v s) = (chain_resolves v s \<and> feature_obtainable v RadeonSuperResolution)"
  "fst (HasAFMFSupport v s) = (chain_resolves v s \<and> feature_obtainable v FrameRateTargetControl)"
  "fst (HasAntiLagSupport v s) = (chain_resolves v s \<and> feature_obtainable v AntiLag)"
  "fst (GetRSRState v s) = (chain_resolves v s \<and> feature_obtainable v RadeonSuperResolution
      \<and> (if ADLX_SUCCEEDED (IsEnabled_res v RadeonSuperResolution)
         then vendor_enabled s RadeonSuperResolution
         else IsEnabled_leaves v RadeonSuperResolution = Some True))"
  "fst (GetAFMFState v s) = (chain_resolves v s \<and> feature_obtainable v FrameRateTargetControl
      \<and> (if ADLX_SUCCEEDED (IsEnabled_res v FrameRateTargetControl)
         then vendor_enabled s FrameRateTargetControl
         else IsEnabled_leaves v FrameRateTargetControl = Some True))"
  "fst (GetAntiLagState v s) = (chain_resolves v s \<and> feature_obtainable v AntiLag
      \<and> (if ADLX_SUCCEEDED (IsEnabled_res v AntiLag) then vendor_enabled s AntiLag
         else IsEnabled_leaves v AntiLag = Some True))"
  "fst (GetRSRSharpness v s) =
     (if chain_resolves v s \<and> feature_obtainable v RadeonSuperResolution
         \<and> ADLX_SUCCEEDED (GetSharpness_res v)
      then vendor_sharpness s else - 1)"
  by (auto simp add: op_defs G3D_eq feature_unfold feature_obtainable_def split: option.splits)

lemma set_results:
  "fst (SetRSR v b s) = (chain_resolves v s \<and> feature_obtainable v RadeonSuperResolution
      \<and> ADLX_SUCCEEDED (SetEnabled_res v RadeonSuperResolution b))"
  "fst (SetAFMFState v b s) = (chain_resolves v s \<and> feature_obtainable v FrameRateTargetControl
      \<and> ADLX_SUCCEEDED (SetEnabled_res v FrameRateTargetControl b))"
  "fst (SetAntiLagState v b s) = (chain_resolves v s \<and> feature_obtainable v AntiLag
      \<and> ADLX_SUCCEEDED (SetEnabled_res v AntiLag b))"
  "fst (SetRSRSharpness v n s) = (0 \<le> n \<and> n \<le> 100 \<and> chain_resolves v s
      \<and> feature_obtainable v RadeonSuperResolution \<and> ADLX_SUCCEEDED (SetSharpness_res v n))"
  by (auto simp add: op_defs G3D_eq feature_unfold feature_obtainable_def)

lemma query_world:
  assumes "is_query op"
  shows "vendor_enabled (snd (call v op s)) = vendor_enabled s"
    and "vendor_sharpness (snd (call v op s)) = vendor_sharpness s"
    and "g_bInitialized (snd (call v op s)) = root_available v s"
  using assms by (cases op; simp add: op_defs G3D_eq feature_unfold)+

lemma set_world:
  "vendor_enabled (snd (SetRSR v b s)) =
     (if fst (SetRSR v b s) then (vendor_enabled s)(RadeonSuperResolution := b)
      else vendor_enabled s)"
  "vendor_enabled (snd (SetAFMFState v b s)) =
     (if fst (SetAFMFState v b s) then (vendor_enabled s)(FrameRateTargetControl := b)
      else vendor_enabled s)"
  "vendor_enabled (snd (SetAntiLagState v b s)) =
     (if fst (SetAntiLagState v b s) then (vendor_enabled s)(AntiLag := b)
      else vendor_enabled s)"
  "vendor_enabled (snd (SetRSRSharpness v n s)) = vendor_enabled s"
  "vendor_sharpness (snd (SetRSR v b s)) = vendor_sharpness s"
  "vendor_sharpness (snd (SetAFMFState v b s)) = vendor_sharpness s"
  "vendor_sharpness (snd (SetAntiLagState v b s)) = vendor_sharpness s"
  "vendor_sharpness (snd (SetRSRSharpness v n s)) =
     (if fst (SetRSRSharpness v n s) then n else vendor_sharpness s)"
  by (auto simp add: op_defs G3D_eq feature_unfold)

lemma SetAntiLagState_flag:
  "g_bInitialized (snd (SetAntiLagState v b s)) = root_available v s"
  by (simp add: op_defs G3D_eq feature_unfold)

text \<open>No operation reads or writes the enabled flag of AMD Fluid Motion Frames.\<close>

lemma AMDFluidMotionFrames_flag_kept:
  "vendor_enabled (snd (call v op s)) AMDFluidMotionFrames = vendor_enabled s AMDFluidMotionFrames"
  by (cases op) (auto simp add: op_defs G3D_eq feature_unfold)

text \<open>On a vendor that never pairs a failed status with a GPU list or an adapter, every
  operation releases as many handles of each kind as it acquires.\<close>

lemma balanced_when_leak_free:
  "leak_free v \<Longrightarrow> outstanding h (snd (call v op s)) = outstanding h s"
  by (cases op)
    (auto simp add: op_defs G3D_eq feature_unfold outstanding_fields resolved_world_outstanding)

lemma call_init_calls:
  "init_calls (snd (call v op s)) = init_calls s
   \<or> (\<not> g_bInitialized s \<and> init_calls (snd (call v op s)) = init_calls s + 1
       \<and> g_bInitialized (snd (call v op s)) = ADLX_SUCCEEDED (Initialize_res v))"
  by (cases op) (auto simp add: op_defs G3D_eq feature_unfold root_available_def)

lemma call_keeps_flag: "g_bInitialized s \<Longrightarrow> g_bInitialized (snd (call v op s))"
  by (cases op) (auto simp add: op_defs G3D_eq feature_unfold root_available_def)

lemma run_init_calls:
  "ADLX_SUCCEEDED (Initialize_res v) \<Longrightarrow>
   init_calls (snd (run v ops s)) = init_calls s
   \<or> (\<not> g_bInitialized s \<and> init_calls (snd (run v ops s)) = init_calls s + 1)"
proof (induction ops arbitrary: s)
  case Nil
  then show ?case by simp
next
  case (Cons x xs)
  obtain r s1 where c: "call v x s = (r, s1)" by (cases "call v x s")
  have step: "init_calls s1 = init_calls s
      \<or> (\<not> g_bInitialized s \<and> init_calls s1 = init_calls s + 1 \<and> g_bInitialized s1)"
    using call_init_calls [of v x s] c Cons.prems by auto
  have keep: "g_bInitialized s \<Longrightarrow> g_bInitialized s1"
    using call_keeps_flag [of s v x] c by simp
  have rest: "init_calls (snd (run v xs s1)) = init_calls s1
      \<or> (\<not> g_bInitialized s1 \<and> init_calls (snd (run v xs s1)) = init_calls s1 + 1)"
    by (rule Cons.IH [OF Cons.prems])
  have "snd (run v (x # xs) s) = snd (run v xs s1)"
    using c by (simp split: prod.splits)
  with step keep rest show ?case by auto
qed


lemma run_initialized:
  "g_bInitialized s \<Longrightarrow>
   g_bInitialized (snd (run v ops s)) \<and> init_calls (snd (run v ops s)) = init_calls s"
proof (induction ops arbitrary: s)
  case Nil
  then show ?case by simp
next
  case (Cons x xs)
  obtain r s1 where c: "call v x s = (r, s1)" by (cases "call v x s")
  have flag: "g_bInitialized s1"
    using call_keeps_flag [OF Cons.prems, of v x] c by simp
  have same: "init_calls s1 = init_calls s"
    using call_init_calls [of v x s] c Cons.prems by auto
  have "snd (run v (x # xs) s) = snd (run v xs s1)"
    using c by (simp split: prod.splits)
  with Cons.IH [OF flag] same show ?case by simp
qed

text \<open>When a failing enabled query stores nothing, the three state getters return the
  value \<open>enabled\<close> was initialised with.\<close>

lemma failed_enabled_query_storing_nothing:
  "ADLX_FAILED (IsEnabled_res v f) \<Longrightarrow> IsEnabled_leaves v f = None \<Longrightarrow>
   (f = RadeonSuperResolution \<longrightarrow> fst (GetRSRState v s) = False)
   \<and> (f = FrameRateTargetControl \<longrightarrow> fst (GetAFMFState v s) = False)
   \<and> (f = AntiLag \<longrightarrow> fst (GetAntiLagState v s) = False)"
  by (auto simp add: query_results ADLX_FAILED_def ADLX_SUCCEEDED_def)

section \<open>The claims\<close>

text \<open>
  Claim C1: the three AFMF operations query and mutate the AMD Fluid Motion Frames
  interface and no other feature. The source fetches the interface with
  \<open>GetFrameRateTargetControl\<close>. Evaluated here: on a driver without the AMD Fluid Motion
  Frames interface \<open>HasAFMFSupport\<close> answers true; with Frame Rate Target Control on and
  AMD Fluid Motion Frames off \<open>GetAFMFState\<close> answers true; \<open>SetAFMFState(true)\<close>
  succeeds, turns Frame Rate Target Control on and leaves AMD Fluid Motion Frames off.
\<close>

theorem AFMF_operations_reach_FrameRateTargetControl:
  "fst (HasAFMFSupport afmf_absent_vendor process_start)
   \<and> \<not> feature_obtainable afmf_absent_vendor AMDFluidMotionFrames
   \<and> fst (GetAFMFState healthy_vendor frtc_enabled_start)
   \<and> \<not> vendor_enabled frtc_enabled_start AMDFluidMotionFrames
   \<and> fst (SetAFMFState healthy_vendor True process_start)
   \<and> vendor_enabled (snd (SetAFMFState healthy_vendor True process_start)) FrameRateTargetControl
   \<and> \<not> vendor_enabled (snd (SetAFMFState healthy_vendor True process_start)) AMDFluidMotionFrames"
  by (simp add: query_results set_results set_world chain_resolves_def root_available_def
      feature_obtainable_def ADLX_SUCCEEDED_def afmf_absent_vendor_def healthy_vendor_def
      process_start_def frtc_enabled_start_def)

text \<open>
  Claim C2: every handle acquired during a call is released exactly once before the call
  returns, for every vendor response, a failed status with a non-null handle included.
  Evaluated here: when \<open>At(0)\<close> answers a failed status with a non-null adapter,
  \<open>HasRSRSupport\<close> returns false having acquired one adapter handle and released none;
  when \<open>GetGPUs\<close> answers a failed status with a non-null list, the list handle is
  acquired once and released never.
\<close>

theorem failed_status_handle_not_released:
  "fst (HasRSRSupport failed_adapter_vendor process_start) = False
   \<and> acquired GPU (snd (HasRSRSupport failed_adapter_vendor process_start)) = 1
   \<and> released GPU (snd (HasRSRSupport failed_adapter_vendor process_start)) = 0
   \<and> acquired GPUList (snd (HasRSRSupport failed_list_vendor process_start)) = 1
   \<and> released GPUList (snd (HasRSRSupport failed_list_vendor process_start)) = 0"
  by (simp add: eval_defs failed_adapter_vendor_def failed_list_vendor_def)

text \<open>
  Claim C3: for every integer below 0 or above 100, \<open>SetRSRSharpness\<close> returns false and
  the world is the one it started in: the flag is not touched and no vendor call is
  recorded.
\<close>

theorem SetRSRSharpness_rejects_out_of_range:
  "sharpness < 0 \<or> sharpness > 100 \<Longrightarrow> SetRSRSharpness v sharpness s = (False, s)"
  by (auto simp: SetRSRSharpness_def)

theorem SetRSRSharpness_rejects_out_of_range_witness:
  "((101::int) < 0 \<or> (101::int) > 100)
   \<and> SetRSRSharpness healthy_vendor 101 process_start = (False, process_start)
   \<and> ((- 1::int) < 0 \<or> (- 1::int) > 100)
   \<and> SetRSRSharpness healthy_vendor (- 1) process_start = (False, process_start)"
  using SetRSRSharpness_rejects_out_of_range [of 101 healthy_vendor process_start]
    SetRSRSharpness_rejects_out_of_range [of "- 1" healthy_vendor process_start]
  by simp

text \<open>
  Claim C4, as stated: across any sequence of calls the vendor's initialization is invoked
  at most once. It fails on a vendor whose initialization fails: two calls invoke it
  twice.
\<close>

theorem failed_Initialize_is_retried:
  "\<not> init_calls (snd (run no_root_vendor [Op_HasRSRSupport, Op_HasRSRSupport] process_start)) \<le> 1"
  by (simp add: eval_defs no_root_vendor_def)

text \<open>
  Claim C4, amended: on a vendor whose initialization succeeds, any sequence of calls
  invokes it at most once; and on any vendor, once \<open>g_bInitialized\<close> is set, no call
  invokes it.
\<close>

theorem Initialize_at_most_once_when_it_succeeds:
  "(ADLX_SUCCEEDED (Initialize_res v) \<longrightarrow> init_calls (snd (run v ops s)) \<le> init_calls s + 1)
   \<and> (g_bInitialized s \<longrightarrow> init_calls (snd (run v ops s)) = init_calls s)"
  using run_init_calls [of v ops s] run_initialized [of s v ops] by auto

theorem Initialize_at_most_once_when_it_succeeds_witness:
  "ADLX_SUCCEEDED (Initialize_res healthy_vendor)
   \<and> init_calls (snd (run healthy_vendor [Op_HasRSRSupport, Op_GetRSRState, Op_SetRSR True]
        process_start)) \<le> init_calls process_start + 1
   \<and> g_bInitialized initialized_start
   \<and> \<not> ADLX_SUCCEEDED (Initialize_res no_root_vendor)
   \<and> init_calls (snd (run no_root_vendor [Op_HasRSRSupport, Op_GetRSRState, Op_SetRSR True]
        initialized_start)) = init_calls initialized_start"
  using Initialize_at_most_once_when_it_succeeds
      [of healthy_vendor "[Op_HasRSRSupport, Op_GetRSRState, Op_SetRSR True]" process_start]
    Initialize_at_most_once_when_it_succeeds
      [of no_root_vendor "[Op_HasRSRSupport, Op_GetRSRState, Op_SetRSR True]" initialized_start]
  by (simp add: healthy_vendor_def no_root_vendor_def ADLX_SUCCEEDED_def initialized_start_def
      process_start_def)

text \<open>
  Claim C5, as stated: \<open>GetRSRSharpness\<close> returns an integer in [0,100] or -1. It fails on
  a vendor that reports sharpness 150: the value is passed on as it is.
\<close>

theorem GetRSRSharpness_passes_on_150:
  "\<not> ((0 \<le> fst (GetRSRSharpness healthy_vendor oversharp_start)
        \<and> fst (GetRSRSharpness healthy_vendor oversharp_start) \<le> 100)
       \<or> fst (GetRSRSharpness healthy_vendor oversharp_start) = - 1)"
  by (simp add: eval_defs oversharp_start_def)

text \<open>
  Claim C5, amended: \<open>GetRSRSharpness\<close> returns the sharpness the vendor reports when the
  chain resolves, the RSR interface is obtained and the sharpness query succeeds, and -1
  otherwise. When the vendor's sharpness lies in [0,100], the result is in [0,100] or -1,
  and it is -1 exactly when a step of the chain, the RSR interface or the query fails.
\<close>

theorem GetRSRSharpness_value:
  "fst (GetRSRSharpness v s) =
     (if chain_resolves v s \<and> feature_obtainable v RadeonSuperResolution
         \<and> ADLX_SUCCEEDED (GetSharpness_res v)
      then vendor_sharpness s else - 1)
   \<and> (0 \<le> vendor_sharpness s \<and> vendor_sharpness s \<le> 100 \<longrightarrow>
        ((0 \<le> fst (GetRSRSharpness v s) \<and> fst (GetRSRSharpness v s) \<le> 100)
          \<or> fst (GetRSRSharpness v s) = - 1)
        \<and> (fst (GetRSRSharpness v s) = - 1 \<longleftrightarrow>
             \<not> (chain_resolves v s \<and> feature_obtainable v RadeonSuperResolution
                \<and> ADLX_SUCCEEDED (GetSharpness_res v))))"
  by (auto simp add: query_results)

theorem GetRSRSharpness_value_witness:
  "0 \<le> vendor_sharpness process_start \<and> vendor_sharpness process_start \<le> 100
   \<and> fst (GetRSRSharpness healthy_vendor process_start) = 80
   \<and> chain_resolves healthy_vendor process_start
   \<and> feature_obtainable healthy_vendor RadeonSuperResolution
   \<and> ADLX_SUCCEEDED (GetSharpness_res healthy_vendor)
   \<and> fst (GetRSRSharpness no_root_vendor process_start) = - 1
   \<and> \<not> chain_resolves no_root_vendor process_start"
  using GetRSRSharpness_value [of healthy_vendor process_start]
    GetRSRSharpness_value [of no_root_vendor process_start]
  by (simp add: chain_resolves_def root_available_def feature_obtainable_def ADLX_SUCCEEDED_def
      healthy_vendor_def no_root_vendor_def process_start_def)

text \<open>
  Claim C6: when the vendor reports no adapters, every exported operation returns its
  failure value (false, or -1 for \<open>GetRSRSharpness\<close>) and makes no attempt to obtain a
  feature interface.
\<close>

theorem no_adapters_gives_sentinel:
  "no_adapters v \<Longrightarrow>
   fst (call v op s) = failure_sentinel op
   \<and> feature_lookups (snd (call v op s)) = feature_lookups s"
  by (cases op) (simp_all add: op_defs G3D_eq no_adapters_chain)

theorem no_adapters_gives_sentinel_witness:
  "no_adapters empty_list_vendor
   \<and> fst (call empty_list_vendor Op_GetRSRSharpness process_start) = RInt (- 1)
   \<and> fst (call empty_list_vendor (Op_SetAntiLagState True) process_start) = RBool False
   \<and> feature_lookups (snd (call empty_list_vendor Op_GetRSRSharpness process_start)) = 0"
  using no_adapters_gives_sentinel [of empty_list_vendor Op_GetRSRSharpness process_start]
    no_adapters_gives_sentinel [of empty_list_vendor "Op_SetAntiLagState True" process_start]
  by (simp add: no_adapters_def empty_list_vendor_def healthy_vendor_def ADLX_FAILED_def
      feature_lookups_def process_start_def)

text \<open>
  Claim C7: a Set operation that returns false leaves the vendor-side feature state (the
  enabled flags and the sharpness) as it was; and when the vendor fails the write behind
  \<open>SetAntiLagState(true)\<close>, the call returns false and \<open>GetAntiLagState\<close> afterwards
  returns what it returned before.
\<close>

theorem failed_set_leaves_vendor_state:
  "(is_set op \<and> fst (call v op s) = RBool False \<longrightarrow>
      vendor_enabled (snd (call v op s)) = vendor_enabled s
      \<and> vendor_sharpness (snd (call v op s)) = vendor_sharpness s)
   \<and> (ADLX_FAILED (SetEnabled_res v AntiLag True) \<longrightarrow>
      fst (SetAntiLagState v True s) = False
      \<and> fst (GetAntiLagState v (snd (SetAntiLagState v True s))) = fst (GetAntiLagState v s))"
proof (intro conjI impI)
  assume a: "is_set op \<and> fst (call v op s) = RBool False"
  then show "vendor_enabled (snd (call v op s)) = vendor_enabled s"
    by (cases op) (simp_all add: lift_bool_def set_world)
  from a show "vendor_sharpness (snd (call v op s)) = vendor_sharpness s"
    by (cases op) (simp_all add: lift_bool_def set_world)
next
  assume f: "ADLX_FAILED (SetEnabled_res v AntiLag True)"
  then show r: "fst (SetAntiLagState v True s) = False"
    by (simp add: set_results ADLX_FAILED_def ADLX_SUCCEEDED_def)
  have "chain_resolves v (snd (SetAntiLagState v True s)) = chain_resolves v s"
    by (rule chain_resolves_flag) (rule SetAntiLagState_flag)
  with r show "fst (GetAntiLagState v (snd (SetAntiLagState v True s))) = fst (GetAntiLagState v s)"
    by (simp add: query_results set_world)
qed

theorem failed_set_leaves_vendor_state_witness:
  "is_set (Op_SetAntiLagState True)
   \<and> fst (call write_fails_vendor (Op_SetAntiLagState True) process_start) = RBool False
   \<and> ADLX_FAILED (SetEnabled_res write_fails_vendor AntiLag True)
   \<and> vendor_enabled (snd (call write_fails_vendor (Op_SetAntiLagState True) process_start))
       = vendor_enabled process_start
   \<and> fst (SetAntiLagState write_fails_vendor True process_start) = False
   \<and> fst (GetAntiLagState write_fails_vendor
         (snd (SetAntiLagState write_fails_vendor True process_start))) = False"
  using failed_set_leaves_vendor_state [of "Op_SetAntiLagState True" write_fails_vendor process_start]
  by (simp add: lift_bool_def set_results query_results write_fails_vendor_def healthy_vendor_def
      ADLX_FAILED_def ADLX_SUCCEEDED_def process_start_def)

text \<open>
  Claim C8: for every read operation (the \<open>Has*Support\<close> checks, the \<open>Get*State\<close>
  operations and \<open>GetRSRSharpness\<close>), every vendor and every world, calling the operation
  a second time right after the first returns the same result.
\<close>

theorem query_twice_same_result:
  "is_query op \<Longrightarrow> fst (call v op (snd (call v op s))) = fst (call v op s)"
proof -
  assume q: "is_query op"
  have "chain_resolves v (snd (call v op s)) = chain_resolves v s"
    by (rule chain_resolves_flag) (rule query_world(3) [OF q])
  with q query_world [OF q, of v s] show ?thesis
    by (cases op) (simp_all add: lift_bool_def lift_int_def query_results)
qed

theorem query_twice_same_result_witness:
  "is_query Op_GetRSRSharpness
   \<and> fst (call healthy_vendor Op_GetRSRSharpness
         (snd (call healthy_vendor Op_GetRSRSharpness process_start))) = RInt 80
   \<and> fst (call healthy_vendor Op_GetRSRSharpness process_start) = RInt 80"
  using query_twice_same_result [of Op_GetRSRSharpness healthy_vendor process_start]
  by (simp add: lift_int_def query_results chain_resolves_def root_available_def
      feature_obtainable_def ADLX_SUCCEEDED_def healthy_vendor_def process_start_def)

text \<open>
  Claim C9: when the chain resolves but the enabled query fails, each of \<open>GetRSRState\<close>,
  \<open>GetAFMFState\<close> and \<open>GetAntiLagState\<close> returns the default false. The source never
  reads the status of \<open>IsEnabled\<close> and returns the variable as the query left it.
  Evaluated here: on a vendor whose enabled query writes true and then fails, with every
  feature off, the three getters return true; \<open>GetRSRSharpness\<close>, which does read the
  status of its query, returns -1 on the same vendor.
\<close>

theorem failed_enabled_query_result_is_returned:
  "chain_resolves writes_then_fails_vendor process_start
   \<and> feature_obtainable writes_then_fails_vendor RadeonSuperResolution
   \<and> feature_obtainable writes_then_fails_vendor FrameRateTargetControl
   \<and> feature_obtainable writes_then_fails_vendor AntiLag
   \<and> ADLX_FAILED (IsEnabled_res writes_then_fails_vendor RadeonSuperResolution)
   \<and> ADLX_FAILED (IsEnabled_res writes_then_fails_vendor FrameRateTargetControl)
   \<and> ADLX_FAILED (IsEnabled_res writes_then_fails_vendor AntiLag)
   \<and> fst (GetRSRState writes_then_fails_vendor process_start) = True
   \<and> fst (GetAFMFState writes_then_fails_vendor process_start) = True
   \<and> fst (GetAntiLagState writes_then_fails_vendor process_start) = True
   \<and> vendor_enabled process_start RadeonSuperResolution = False
   \<and> vendor_enabled process_start FrameRateTargetControl = False
   \<and> vendor_enabled process_start AntiLag = False
   \<and> fst (GetRSRSharpness writes_then_fails_vendor process_start) = - 1"
  by (simp add: query_results chain_resolves_def root_available_def feature_obtainable_def
      ADLX_FAILED_def ADLX_SUCCEEDED_def writes_then_fails_vendor_def healthy_vendor_def
      process_start_def)

text \<open>
  Claim C10: the 3D-settings service is taken from the system object and the adapter
  returned by \<open>At(0)\<close> is only tested for failure and null. So two vendors that differ
  only in which adapters the list holds, both with a first adapter, give every exported
  operation the same result and the same record of vendor calls.
\<close>

theorem adapter_identity_is_irrelevant:
  "At_out v 0 = (r, Some g) \<Longrightarrow> a 0 = (r, Some g') \<Longrightarrow>
   call (v\<lparr>At_out := a\<rparr>) op s = call v op s"
  by (cases op) (simp_all add: op_defs G3D_adapter feature_unfold)

theorem adapter_identity_is_irrelevant_witness:
  "At_out healthy_vendor 0 = (ADLX_OK, Some example_gpu)
   \<and> At_out other_adapter_vendor 0 = (ADLX_OK, Some other_gpu)
   \<and> example_gpu \<noteq> other_gpu
   \<and> call (healthy_vendor\<lparr>At_out := At_out other_adapter_vendor\<rparr>) Op_GetRSRSharpness process_start
       = call healthy_vendor Op_GetRSRSharpness process_start"
  using adapter_identity_is_irrelevant
      [of healthy_vendor ADLX_OK example_gpu "At_out other_adapter_vendor" other_gpu
          Op_GetRSRSharpness process_start]
  by (simp add: healthy_vendor_def other_adapter_vendor_def example_gpu_def other_gpu_def)

end
